theory Spec2Isabelle
  imports Complex_Main
begin

section \<open>The ticker hook of src/hooks/useCoinbaseTicker.ts\<close>

text \<open>
  The hook is event driven and single threaded: every handler runs to completion.
  The model is a state record holding the React state, the refs and the two resources
  the handlers act on (the sockets created so far and the timers created so far), one
  function per handler of the source, and a dispatcher \<open>step\<close> that delivers one event.
  Results of platform calls that the source only consumes (\<open>parseFloat\<close>, \<open>Math.random\<close>,
  \<open>Date.now\<close>, whether \<open>new WebSocket\<close> or \<open>send\<close> throws) are carried by the event.
  Console output is not modelled.
\<close>

subsection \<open>JavaScript numbers, as far as the guards of the source read them\<close>

datatype jsnum = NaN | PosInf | NegInf | Fin real

definition isNaN :: "jsnum \<Rightarrow> bool" where
  "isNaN x = (x = NaN)"

text \<open>Truthiness of a number: every number but \<open>NaN\<close>, \<open>0\<close> and \<open>-0\<close>.\<close>

definition truthy_num :: "jsnum \<Rightarrow> bool" where
  "truthy_num x = (x \<noteq> NaN \<and> x \<noteq> Fin 0)"

fun isFinite :: "jsnum \<Rightarrow> bool" where
  "isFinite (Fin r) = True"
| "isFinite NaN = False"
| "isFinite PosInf = False"
| "isFinite NegInf = False"

text \<open>\<open>x || d\<close> for a field that is a string or absent: absent and the empty string are falsy.\<close>

definition or_default :: "string option \<Rightarrow> string \<Rightarrow> string" where
  "or_default x d = (case x of None \<Rightarrow> d | Some v \<Rightarrow> if v = [] then d else v)"

text \<open>Decimal rendering of a number in a template literal.\<close>

definition digit_char :: "nat \<Rightarrow> char" where
  "digit_char d = ''0123456789'' ! d"

fun show_nat :: "nat \<Rightarrow> string" where
  "show_nat n = (if n < 10 then [digit_char n] else show_nat (n div 10) @ [digit_char (n mod 10)])"

declare show_nat.simps [simp del]

subsection \<open>Data\<close>

text \<open>Interface \<open>TickerData\<close>; a field missing from a payload is \<open>None\<close>.\<close>

record TickerData =
  td_price :: "string option"
  td_time :: "string option"
  td_product_id :: "string option"
  td_sequence :: "nat option"
  td_side :: "string option"
  td_last_size :: "string option"
  td_best_bid :: "string option"
  td_best_ask :: "string option"
  td_volume_24h :: "string option"
  td_low_24h :: "string option"
  td_high_24h :: "string option"
  td_volume_30d :: "string option"
  td_best_bid_size :: "string option"
  td_best_ask_size :: "string option"
  td_open_24h :: "string option"

text \<open>
  Body of the REST ticker response and of the stats response, after \<open>json()\<close>.
  \<open>tj_parseFloat_price\<close> is the value \<open>parseFloat(tickerData.price)\<close> returns.
\<close>

record ticker_json =
  tj_price :: "string option"
  tj_parseFloat_price :: jsnum
  tj_time :: "string option"
  tj_trade_id :: "nat option"
  tj_size :: "string option"
  tj_bid :: "string option"
  tj_ask :: "string option"
  tj_volume :: "string option"

record stats_json =
  sj_volume :: "string option"
  sj_low :: "string option"
  sj_high :: "string option"
  sj_volume_30day :: "string option"
  sj_open :: "string option"

text \<open>
  What the two awaited \<open>fetch\<close> calls of one \<open>fetchPriceData\<close> deliver: either one of them
  rejects, or both resolve with a status. The body of a response is \<open>None\<close> when \<open>json()\<close>
  rejects; for the ticker response also when it yields \<open>null\<close>, whose \<open>price\<close> cannot be
  read. A stats body of \<open>null\<close> is a record with every field \<open>None\<close>: the code reads
  it with \<open>?.\<close>. The last argument is \<open>Date.now()\<close>.
\<close>

datatype fetch_outcome =
    FetchRejected
  | FetchResolved nat "ticker_json option" nat "stats_json option" nat

text \<open>\<open>Response.ok\<close>: the status is in the range 200 to 299.\<close>

definition response_ok :: "nat \<Rightarrow> bool" where
  "response_ok status = (200 \<le> status \<and> status \<le> 299)"

text \<open>
  An inbound socket frame after \<open>JSON.parse\<close>: \<open>NotJson\<close> when parsing throws (or yields
  \<open>null\<close>, whose fields cannot be read). \<open>wj_parseFloat_price\<close> is \<open>parseFloat(data.price)\<close>;
  \<open>wj_body\<close> is the object itself, read through interface \<open>TickerData\<close>.
\<close>

record ws_json =
  wj_type :: "string option"
  wj_parseFloat_price :: jsnum
  wj_message :: "string option"
  wj_body :: TickerData

datatype ws_data = NotJson | Json ws_json

datatype readyState = CONNECTING | OPEN | CLOSING | CLOSED

text \<open>
  A socket created by \<open>connect\<close>. \<open>connectionTimeout\<close> is the handle of the watchdog timer
  its handlers close over; \<open>sent\<close> counts the subscribe messages sent on it.
\<close>

record socket =
  readyState :: readyState
  connectionTimeout :: nat
  sent :: nat

text \<open>
  Every \<open>setTimeout\<close>/\<open>setInterval\<close> of the source, by its callback. A handle is the
  position of the timer in the list of timers created so far; \<open>pending\<close> is cleared by
  \<open>clearTimeout\<close>/\<open>clearInterval\<close> and when a timeout fires.
\<close>

datatype timer_kind =
    SettleDelay
  | ReconnectRetry
  | ConnectionTimeout nat
  | TimeoutRetry
  | ExceptionRetry
  | FallbackInterval

record timer =
  kind :: timer_kind
  delay :: real
  pending :: bool

record hook =
  price :: "jsnum option"
  tickerData :: "TickerData option"
  isConnected :: bool
  error :: "string option"
  wsRef :: "nat option"
  reconnectTimeoutRef :: "nat option"
  fallbackIntervalRef :: "nat option"
  reconnectAttemptsRef :: nat
  fallbackStoppedRef :: bool
  isConnectingRef :: bool
  wsTimeout :: "nat option"
  sockets :: "socket list"
  timers :: "timer list"
  inflight :: nat

definition init :: hook where
  "init = \<lparr> price = None, tickerData = None, isConnected = False, error = None,
            wsRef = None, reconnectTimeoutRef = None, fallbackIntervalRef = None,
            reconnectAttemptsRef = 0, fallbackStoppedRef = False, isConnectingRef = False,
            wsTimeout = None, sockets = [], timers = [], inflight = 0 \<rparr>"

subsection \<open>Timers and sockets\<close>

definition new_timer :: "timer_kind \<Rightarrow> real \<Rightarrow> timer" where
  "new_timer k d = \<lparr> kind = k, delay = d, pending = True \<rparr>"

text \<open>\<open>setTimeout\<close> and \<open>setInterval\<close>: the handle returned is \<open>length (timers s)\<close>.\<close>

definition setTimeout :: "timer_kind \<Rightarrow> real \<Rightarrow> hook \<Rightarrow> hook" where
  "setTimeout k d s = s\<lparr> timers := timers s @ [new_timer k d] \<rparr>"

definition clear :: "nat \<Rightarrow> timer list \<Rightarrow> timer list" where
  "clear h ts = (if h < length ts then ts[h := (ts ! h)\<lparr> pending := False \<rparr>] else ts)"

definition clearTimeout :: "nat \<Rightarrow> hook \<Rightarrow> hook" where
  "clearTimeout h s = s\<lparr> timers := clear h (timers s) \<rparr>"

text \<open>\<open>ws.close()\<close>: an open or connecting socket starts closing; the close event comes later.\<close>

definition close_socket :: "socket \<Rightarrow> socket" where
  "close_socket w =
     (if readyState w = CONNECTING \<or> readyState w = OPEN then w\<lparr> readyState := CLOSING \<rparr> else w)"

definition ws_close :: "nat \<Rightarrow> hook \<Rightarrow> hook" where
  "ws_close k s =
     (if k < length (sockets s) then s\<lparr> sockets := (sockets s)[k := close_socket (sockets s ! k)] \<rparr>
      else s)"

subsection \<open>Polling\<close>

text \<open>
  \<open>fetchPriceData\<close> up to its first \<open>await\<close>: the two requests are issued. What follows
  the \<open>await\<close> is \<open>fetchPriceData_done\<close>, run when the responses arrive.
\<close>

definition fetchPriceData :: "hook \<Rightarrow> hook" where
  "fetchPriceData s = s\<lparr> inflight := inflight s + 1 \<rparr>"

definition realTickerData :: "string \<Rightarrow> ticker_json \<Rightarrow> stats_json option \<Rightarrow> nat \<Rightarrow> TickerData" where
  "realTickerData productId t st now =
     \<lparr> td_price = tj_price t,
       td_time = tj_time t,
       td_product_id = Some productId,
       td_sequence = Some (case tj_trade_id t of None \<Rightarrow> now | Some i \<Rightarrow> if i = 0 then now else i),
       td_side = Some ''buy'',
       td_last_size = Some (or_default (tj_size t) ''0''),
       td_best_bid = Some (or_default (tj_bid t) ''0''),
       td_best_ask = Some (or_default (tj_ask t) ''0''),
       td_volume_24h = Some (or_default (Option.bind st sj_volume) (or_default (tj_volume t) ''0'')),
       td_low_24h = Some (or_default (Option.bind st sj_low) ''0''),
       td_high_24h = Some (or_default (Option.bind st sj_high) ''0''),
       td_volume_30d = Some (or_default (Option.bind st sj_volume_30day) ''0''),
       td_best_bid_size = Some ''0'',
       td_best_ask_size = Some ''0'',
       td_open_24h = Some (or_default (Option.bind st sj_open) ''0'') \<rparr>"

text \<open>The \<open>catch\<close> block of \<open>fetchPriceData\<close>.\<close>

definition fetch_failed :: "hook \<Rightarrow> hook" where
  "fetch_failed s = s\<lparr> error := Some ''Unable to fetch price data'' \<rparr>"

definition fetchPriceData_done :: "string \<Rightarrow> fetch_outcome \<Rightarrow> hook \<Rightarrow> hook" where
  "fetchPriceData_done productId out s =
     (case out of
        FetchRejected \<Rightarrow> fetch_failed s
      | FetchResolved tstatus tbody sstatus sbody now \<Rightarrow>
          if tstatus = 429 then s\<lparr> error := Some ''Rate limited - reducing update frequency'' \<rparr>
          else if \<not> response_ok tstatus then fetch_failed s
          else (case tbody of
                  None \<Rightarrow> fetch_failed s
                | Some t \<Rightarrow>
                    if response_ok sstatus \<and> sbody = None then fetch_failed s
                    else
                      let statsData = (if response_ok sstatus then sbody else None);
                          currentPrice = tj_parseFloat_price t
                      in if truthy_num currentPrice \<and> \<not> isNaN currentPrice
                         then s\<lparr> price := Some currentPrice,
                                 tickerData := Some (realTickerData productId t statsData now),
                                 error := None,
                                 isConnected := True \<rparr>
                         else fetch_failed s))"

definition startFallback :: "hook \<Rightarrow> hook" where
  "startFallback s =
     (let s1 = s\<lparr> fallbackStoppedRef := False \<rparr>;
          s2 = fetchPriceData s1;
          h = length (timers s2)
      in (setTimeout FallbackInterval 5000 s2)\<lparr> fallbackIntervalRef := Some h \<rparr>)"

definition stopFallback :: "hook \<Rightarrow> hook" where
  "stopFallback s =
     (case fallbackIntervalRef s of
        None \<Rightarrow> s
      | Some h \<Rightarrow> (clearTimeout h s)\<lparr> fallbackIntervalRef := None \<rparr>)"

subsection \<open>Streaming\<close>

text \<open>
  \<open>connect\<close>. The argument says whether \<open>new WebSocket\<close> throws, which sends control to
  the \<open>catch\<close> block; the assignments made before the throw stay.
\<close>

definition connect :: "bool \<Rightarrow> hook \<Rightarrow> hook" where
  "connect ctor_throws s =
     (if isConnectingRef s then s
      else
        let s1 = s\<lparr> isConnectingRef := True, error := None \<rparr>;
            s2 = stopFallback s1;
            s3 = s2\<lparr> fallbackStoppedRef := False \<rparr>;
            s4 = (case wsRef s3 of
                    None \<Rightarrow> s3
                  | Some k \<Rightarrow>
                      if k < length (sockets s3) \<and> readyState (sockets s3 ! k) \<noteq> CLOSED
                      then (ws_close k s3)\<lparr> wsRef := None \<rparr>
                      else s3)
        in if ctor_throws then
             (let s5 = s4\<lparr> isConnectingRef := False,
                           error := Some ''Failed to connect to price feed'' \<rparr>
              in if reconnectAttemptsRef s5 \<ge> 2 then startFallback s5
                 else setTimeout ExceptionRetry 5000 s5)
           else
             (let k = length (sockets s4);
                  h = length (timers s4);
                  s5 = s4\<lparr> sockets := sockets s4 @
                             [\<lparr> readyState = CONNECTING, connectionTimeout = h, sent = 0 \<rparr>],
                           wsRef := Some k \<rparr>
              in setTimeout (ConnectionTimeout k) 15000 s5))"

text \<open>The callback of the watchdog \<open>connectionTimeout\<close> of socket \<open>k\<close>.\<close>

definition connectionTimeout_fired :: "nat \<Rightarrow> hook \<Rightarrow> hook" where
  "connectionTimeout_fired k s =
     (if k < length (sockets s) \<and> readyState (sockets s ! k) = CONNECTING
      then setTimeout TimeoutRetry 3000
             ((ws_close k s)\<lparr> error := Some ''Connection timeout - retrying...'' \<rparr>)
      else s)"

text \<open>
  The handlers of a socket are closures over the socket \<open>ws\<close> and its watchdog handle
  \<open>connectionTimeout\<close>; both are arguments here (\<open>k\<close> and \<open>ct\<close>).

  \<open>ws.onopen\<close>; the flag says whether \<open>ws.send\<close> throws.
\<close>

definition ws_send :: "nat \<Rightarrow> hook \<Rightarrow> hook" where
  "ws_send k s =
     (if k < length (sockets s)
      then s\<lparr> sockets := (sockets s)[k := (sockets s ! k)\<lparr> sent := sent (sockets s ! k) + 1 \<rparr>] \<rparr>
      else s)"

definition onopen :: "nat \<Rightarrow> nat \<Rightarrow> bool \<Rightarrow> hook \<Rightarrow> hook" where
  "onopen k ct send_throws s =
     (let s1 = s\<lparr> isConnectingRef := False \<rparr>;
          s2 = clearTimeout ct s1;
          s3 = s2\<lparr> isConnected := True \<rparr>
      in if send_throws then s3\<lparr> error := Some ''Failed to subscribe to price feed'' \<rparr>
         else ws_send k s3)"

text \<open>\<open>ws.onmessage\<close>.\<close>

definition onmessage :: "string \<Rightarrow> ws_data \<Rightarrow> hook \<Rightarrow> hook" where
  "onmessage productId d s =
     (case d of
        NotJson \<Rightarrow> s
      | Json data \<Rightarrow>
          if wj_type data = Some ''ticker'' \<and> td_product_id (wj_body data) = Some productId then
            (let priceNum = wj_parseFloat_price data;
                 s1 = s\<lparr> price := Some priceNum,
                         tickerData := Some (wj_body data),
                         reconnectAttemptsRef := 0 \<rparr>
             in if \<not> fallbackStoppedRef s1 then (stopFallback s1)\<lparr> fallbackStoppedRef := True \<rparr>
                else s1)
          else if wj_type data = Some ''subscriptions'' then s
          else if wj_type data = Some ''error'' then
            s\<lparr> error := Some (''WebSocket error: '' @ or_default (wj_message data) ''Unknown error'') \<rparr>
          else s)"

text \<open>\<open>ws.onerror\<close>.\<close>

definition onerror :: "nat \<Rightarrow> hook \<Rightarrow> hook" where
  "onerror ct s =
     (let s1 = s\<lparr> isConnectingRef := False \<rparr>;
          s2 = clearTimeout ct s1
      in s2\<lparr> error := Some ''Connection error occurred'' \<rparr>)"

definition getErrorMessage :: "nat \<Rightarrow> string" where
  "getErrorMessage code =
     (if code = 1001 then ''Server going away''
      else if code = 1002 then ''Protocol error''
      else if code = 1003 then ''Unsupported data type''
      else if code = 1005 then ''No status received''
      else if code = 1006 then ''Abnormal closure''
      else if code = 1007 then ''Invalid data''
      else if code = 1008 then ''Policy violation''
      else if code = 1009 then ''Message too large''
      else if code = 1011 then ''Server error''
      else if code = 1012 then ''Service restart''
      else if code = 1013 then ''Try again later''
      else if code = 1014 then ''Bad gateway''
      else if code = 1015 then ''TLS handshake failed''
      else ''Connection error ('' @ show_nat code @ '')'')"

text \<open>
  \<open>ws.onclose\<close> with \<open>event.code\<close>; \<open>random\<close> is what \<open>Math.random()\<close> returns if it
  is called. The outer \<open>baseDelay\<close> of the source is never read (the inner one shadows it)
  and is left out. The handler does not read \<open>wsRef\<close>.
\<close>

definition onclose :: "nat \<Rightarrow> nat \<Rightarrow> real \<Rightarrow> hook \<Rightarrow> hook" where
  "onclose ct code random s =
     (let s1 = s\<lparr> isConnectingRef := False \<rparr>;
          s2 = clearTimeout ct s1;
          s3 = s2\<lparr> isConnected := False \<rparr>
      in if code \<noteq> 1000 then
           (let s4 = s3\<lparr> reconnectAttemptsRef := reconnectAttemptsRef s3 + 1 \<rparr>;
                errorMsg = getErrorMessage code
            in if reconnectAttemptsRef s4 \<ge> 2 then
                 startFallback (s4\<lparr> error := Some (errorMsg @ '' - using REST API fallback'') \<rparr>)
               else
                 (let s5 = s4\<lparr> error := Some (errorMsg @ ''. Reconnecting... (''
                                              @ show_nat (reconnectAttemptsRef s4) @ ''/2)'') \<rparr>;
                      baseDelay = 10000;
                      jitter = random * 2000;
                      retryDelay = min (baseDelay * 2 ^ reconnectAttemptsRef s5 + jitter) 30000;
                      h = length (timers s5)
                  in (setTimeout ReconnectRetry retryDelay s5)\<lparr> reconnectTimeoutRef := Some h \<rparr>))
         else s3)"

subsection \<open>The public surface\<close>

definition reconnect :: "bool \<Rightarrow> hook \<Rightarrow> hook" where
  "reconnect ctor_throws s =
     (let s1 = (case reconnectTimeoutRef s of None \<Rightarrow> s | Some h \<Rightarrow> clearTimeout h s)
      in connect ctor_throws (s1\<lparr> reconnectAttemptsRef := 0 \<rparr>))"

text \<open>The body of the effect (start) and the function it returns (teardown).\<close>

definition effect :: "hook \<Rightarrow> hook" where
  "effect s =
     (let s1 = s\<lparr> price := None, tickerData := None, error := None, reconnectAttemptsRef := 0 \<rparr>;
          s2 = startFallback s1;
          h = length (timers s2)
      in (setTimeout SettleDelay 1000 s2)\<lparr> wsTimeout := Some h \<rparr>)"

definition cleanup :: "hook \<Rightarrow> hook" where
  "cleanup s =
     (let s1 = (case wsTimeout s of None \<Rightarrow> s | Some h \<Rightarrow> clearTimeout h s);
          s2 = (case reconnectTimeoutRef s1 of
                  None \<Rightarrow> s1
                | Some h \<Rightarrow> (clearTimeout h s1)\<lparr> reconnectTimeoutRef := None \<rparr>);
          s3 = (case wsRef s2 of
                  None \<Rightarrow> s2
                | Some k \<Rightarrow>
                    if k < length (sockets s2) \<and> readyState (sockets s2 ! k) \<noteq> CLOSED
                    then (ws_close k s2)\<lparr> wsRef := None \<rparr>
                    else s2);
          s4 = stopFallback s3
      in s4\<lparr> isConnectingRef := False, fallbackStoppedRef := False \<rparr>)"

subsection \<open>The event loop\<close>

text \<open>
  One event at a time. A timer fires only while it is pending, and a timeout is then no
  longer pending; the flag of \<open>TimerFires\<close> and \<open>Reconnect\<close> says whether \<open>new WebSocket\<close>
  throws, should the callback reach it. Socket events reach the handlers of an existing
  socket: \<open>open\<close> while it is connecting, \<open>message\<close> while it is open, \<open>close\<close> once.
  A response arrives only for a request that was issued. Time is not modelled: a pending
  timer may fire at any moment, so what holds for every order of events holds for the
  orders the delays allow. \<open>productId\<close> is fixed: a change of product is an \<open>Unmount\<close>
  followed by a \<open>Mount\<close>.
\<close>

datatype event =
    Mount
  | Unmount
  | Reconnect bool
  | TimerFires nat bool
  | FetchDone fetch_outcome
  | WsOpen nat bool
  | WsMessage nat ws_data
  | WsError nat
  | WsClose nat nat real

definition set_readyState :: "nat \<Rightarrow> readyState \<Rightarrow> hook \<Rightarrow> hook" where
  "set_readyState k r s = s\<lparr> sockets := (sockets s)[k := (sockets s ! k)\<lparr> readyState := r \<rparr>] \<rparr>"

definition fire :: "nat \<Rightarrow> bool \<Rightarrow> hook \<Rightarrow> hook" where
  "fire h ctor_throws s =
     (if h < length (timers s) \<and> pending (timers s ! h) then
        (case kind (timers s ! h) of
           FallbackInterval \<Rightarrow> fetchPriceData s
         | SettleDelay \<Rightarrow> connect ctor_throws (clearTimeout h s)
         | ReconnectRetry \<Rightarrow> connect ctor_throws (clearTimeout h s)
         | ConnectionTimeout k \<Rightarrow> connectionTimeout_fired k (clearTimeout h s)
         | TimeoutRetry \<Rightarrow> connect ctor_throws (clearTimeout h s)
         | ExceptionRetry \<Rightarrow>
             (let s1 = clearTimeout h s
              in connect ctor_throws (s1\<lparr> reconnectAttemptsRef := reconnectAttemptsRef s1 + 1 \<rparr>)))
      else s)"

definition step :: "string \<Rightarrow> hook \<Rightarrow> event \<Rightarrow> hook" where
  "step productId s e =
     (case e of
        Mount \<Rightarrow> effect s
      | Unmount \<Rightarrow> cleanup s
      | Reconnect ctor_throws \<Rightarrow> reconnect ctor_throws s
      | TimerFires h ctor_throws \<Rightarrow> fire h ctor_throws s
      | FetchDone out \<Rightarrow>
          if 0 < inflight s then fetchPriceData_done productId out (s\<lparr> inflight := inflight s - 1 \<rparr>)
          else s
      | WsOpen k send_throws \<Rightarrow>
          if k < length (sockets s) \<and> readyState (sockets s ! k) = CONNECTING
          then onopen k (connectionTimeout (sockets s ! k)) send_throws (set_readyState k OPEN s) else s
      | WsMessage k d \<Rightarrow>
          if k < length (sockets s) \<and> readyState (sockets s ! k) = OPEN
          then onmessage productId d s else s
      | WsError k \<Rightarrow>
          if k < length (sockets s) \<and> readyState (sockets s ! k) \<noteq> CLOSED
          then onerror (connectionTimeout (sockets s ! k)) s else s
      | WsClose k code random \<Rightarrow>
          if k < length (sockets s) \<and> readyState (sockets s ! k) \<noteq> CLOSED
          then onclose (connectionTimeout (sockets s ! k)) code random (set_readyState k CLOSED s)
          else s)"

fun run :: "string \<Rightarrow> hook \<Rightarrow> event list \<Rightarrow> hook" where
  "run productId s [] = s"
| "run productId s (e # es) = run productId (step productId s e) es"

text \<open>Polling is active while some polling interval is pending.\<close>

definition polling :: "timer list \<Rightarrow> bool" where
  "polling ts = list_ex (\<lambda>t. kind t = FallbackInterval \<and> pending t) ts"

definition polling_active :: "hook \<Rightarrow> bool" where
  "polling_active s = polling (timers s)"

subsection \<open>Vocabulary of the properties\<close>

text \<open>A frame that takes the first branch of \<open>onmessage\<close>: a ticker for the subscribed product.\<close>

definition matching_ticker :: "string \<Rightarrow> ws_data \<Rightarrow> bool" where
  "matching_ticker productId d =
     (case d of
        NotJson \<Rightarrow> False
      | Json data \<Rightarrow> wj_type data = Some ''ticker'' \<and> td_product_id (wj_body data) = Some productId)"

definition delivers_ticker :: "string \<Rightarrow> event \<Rightarrow> bool" where
  "delivers_ticker productId e = (case e of WsMessage k d \<Rightarrow> matching_ticker productId d | _ \<Rightarrow> False)"


text \<open>The event runs \<open>connect\<close>: a manual reconnect, or a pending timeout whose callback calls it.\<close>

definition invokes_connect :: "hook \<Rightarrow> event \<Rightarrow> bool" where
  "invokes_connect s e =
     (case e of
        Reconnect b \<Rightarrow> True
      | TimerFires h b \<Rightarrow>
          h < length (timers s) \<and> pending (timers s ! h) \<and>
          kind (timers s ! h) \<in> {SettleDelay, ReconnectRetry, TimeoutRetry, ExceptionRetry}
      | _ \<Rightarrow> False)"

text \<open>
  Handles are well formed: the handle a socket, \<open>reconnectTimeoutRef\<close> or \<open>wsTimeout\<close>
  holds names a timer that exists and was created for that purpose.
\<close>

definition handle_ok :: "timer list \<Rightarrow> timer_kind \<Rightarrow> nat option \<Rightarrow> bool" where
  "handle_ok ts k r = (case r of None \<Rightarrow> True | Some h \<Rightarrow> h < length ts \<and> kind (ts ! h) = k)"

definition watchdogs_ok :: "timer list \<Rightarrow> socket list \<Rightarrow> bool" where
  "watchdogs_ok ts ws =
     list_all (\<lambda>w. connectionTimeout w < length ts \<and> kind (ts ! connectionTimeout w) \<noteq> FallbackInterval) ws"

definition wf :: "hook \<Rightarrow> bool" where
  "wf s = (watchdogs_ok (timers s) (sockets s)
           \<and> handle_ok (timers s) ReconnectRetry (reconnectTimeoutRef s)
           \<and> handle_ok (timers s) SettleDelay (wsTimeout s)
           \<and> handle_ok (timers s) FallbackInterval (fallbackIntervalRef s))"

text \<open>Payloads used as concrete inputs.\<close>

definition no_fields :: TickerData where
  "no_fields = \<lparr> td_price = None, td_time = None, td_product_id = None, td_sequence = None,
                 td_side = None, td_last_size = None, td_best_bid = None, td_best_ask = None,
                 td_volume_24h = None, td_low_24h = None, td_high_24h = None, td_volume_30d = None,
                 td_best_bid_size = None, td_best_ask_size = None, td_open_24h = None \<rparr>"

text \<open>
  The frame \<open>{"type":"ticker","product_id":p,"price":raw}\<close>, where \<open>parseFloat(raw)\<close> is
  \<open>n\<close>; with \<open>raw = None\<close> the frame has no price field.
\<close>

definition ticker_frame :: "string \<Rightarrow> string option \<Rightarrow> jsnum \<Rightarrow> ws_data" where
  "ticker_frame p raw n =
     Json \<lparr> wj_type = Some ''ticker'', wj_parseFloat_price = n, wj_message = None,
            wj_body = no_fields\<lparr> td_product_id := Some p, td_price := raw \<rparr> \<rparr>"

text \<open>The REST ticker body \<open>{"price":raw}\<close>, where \<open>parseFloat(raw)\<close> is \<open>n\<close>.\<close>

definition price_body :: "string \<Rightarrow> jsnum \<Rightarrow> ticker_json" where
  "price_body raw n =
     \<lparr> tj_price = Some raw, tj_parseFloat_price = n, tj_time = None, tj_trade_id = None,
       tj_size = None, tj_bid = None, tj_ask = None, tj_volume = None \<rparr>"

section \<open>Properties\<close>

subsection \<open>What each primitive leaves alone\<close>

lemmas run_defs = step_def effect_def cleanup_def reconnect_def fire_def connect_def onopen_def onclose_def
  onerror_def onmessage_def connectionTimeout_fired_def startFallback_def stopFallback_def fetchPriceData_def
  fetchPriceData_done_def fetch_failed_def setTimeout_def clearTimeout_def clear_def new_timer_def ws_close_def
  ws_send_def close_socket_def set_readyState_def init_def Let_def getErrorMessage_def polling_active_def
  polling_def response_ok_def truthy_num_def isNaN_def price_body_def ticker_frame_def

lemma setTimeout_frame [simp]:
  "price (setTimeout k d s) = price s"
  "tickerData (setTimeout k d s) = tickerData s"
  "isConnected (setTimeout k d s) = isConnected s"
  "error (setTimeout k d s) = error s"
  "wsRef (setTimeout k d s) = wsRef s"
  "reconnectTimeoutRef (setTimeout k d s) = reconnectTimeoutRef s"
  "fallbackIntervalRef (setTimeout k d s) = fallbackIntervalRef s"
  "reconnectAttemptsRef (setTimeout k d s) = reconnectAttemptsRef s"
  "fallbackStoppedRef (setTimeout k d s) = fallbackStoppedRef s"
  "isConnectingRef (setTimeout k d s) = isConnectingRef s"
  "wsTimeout (setTimeout k d s) = wsTimeout s"
  "sockets (setTimeout k d s) = sockets s"
  "inflight (setTimeout k d s) = inflight s"
  "timers (setTimeout k d s) = timers s @ [new_timer k d]"
  by (simp_all add: setTimeout_def)

lemma clearTimeout_frame [simp]:
  "price (clearTimeout h s) = price s"
  "tickerData (clearTimeout h s) = tickerData s"
  "isConnected (clearTimeout h s) = isConnected s"
  "error (clearTimeout h s) = error s"
  "wsRef (clearTimeout h s) = wsRef s"
  "reconnectTimeoutRef (clearTimeout h s) = reconnectTimeoutRef s"
  "fallbackIntervalRef (clearTimeout h s) = fallbackIntervalRef s"
  "reconnectAttemptsRef (clearTimeout h s) = reconnectAttemptsRef s"
  "fallbackStoppedRef (clearTimeout h s) = fallbackStoppedRef s"
  "isConnectingRef (clearTimeout h s) = isConnectingRef s"
  "wsTimeout (clearTimeout h s) = wsTimeout s"
  "sockets (clearTimeout h s) = sockets s"
  "inflight (clearTimeout h s) = inflight s"
  "timers (clearTimeout h s) = clear h (timers s)"
  by (simp_all add: clearTimeout_def)

lemma ws_close_frame [simp]:
  "price (ws_close k s) = price s"
  "tickerData (ws_close k s) = tickerData s"
  "isConnected (ws_close k s) = isConnected s"
  "error (ws_close k s) = error s"
  "wsRef (ws_close k s) = wsRef s"
  "reconnectTimeoutRef (ws_close k s) = reconnectTimeoutRef s"
  "fallbackIntervalRef (ws_close k s) = fallbackIntervalRef s"
  "reconnectAttemptsRef (ws_close k s) = reconnectAttemptsRef s"
  "fallbackStoppedRef (ws_close k s) = fallbackStoppedRef s"
  "isConnectingRef (ws_close k s) = isConnectingRef s"
  "wsTimeout (ws_close k s) = wsTimeout s"
  "timers (ws_close k s) = timers s"
  "inflight (ws_close k s) = inflight s"
  "length (sockets (ws_close k s)) = length (sockets s)"
  by (simp_all add: ws_close_def)

lemma ws_send_frame [simp]:
  "price (ws_send k s) = price s"
  "tickerData (ws_send k s) = tickerData s"
  "isConnected (ws_send k s) = isConnected s"
  "error (ws_send k s) = error s"
  "wsRef (ws_send k s) = wsRef s"
  "reconnectTimeoutRef (ws_send k s) = reconnectTimeoutRef s"
  "fallbackIntervalRef (ws_send k s) = fallbackIntervalRef s"
  "reconnectAttemptsRef (ws_send k s) = reconnectAttemptsRef s"
  "fallbackStoppedRef (ws_send k s) = fallbackStoppedRef s"
  "isConnectingRef (ws_send k s) = isConnectingRef s"
  "wsTimeout (ws_send k s) = wsTimeout s"
  "timers (ws_send k s) = timers s"
  "inflight (ws_send k s) = inflight s"
  "length (sockets (ws_send k s)) = length (sockets s)"
  by (simp_all add: ws_send_def)

lemma set_readyState_frame [simp]:
  "price (set_readyState k r s) = price s"
  "tickerData (set_readyState k r s) = tickerData s"
  "isConnected (set_readyState k r s) = isConnected s"
  "error (set_readyState k r s) = error s"
  "wsRef (set_readyState k r s) = wsRef s"
  "reconnectTimeoutRef (set_readyState k r s) = reconnectTimeoutRef s"
  "fallbackIntervalRef (set_readyState k r s) = fallbackIntervalRef s"
  "reconnectAttemptsRef (set_readyState k r s) = reconnectAttemptsRef s"
  "fallbackStoppedRef (set_readyState k r s) = fallbackStoppedRef s"
  "isConnectingRef (set_readyState k r s) = isConnectingRef s"
  "wsTimeout (set_readyState k r s) = wsTimeout s"
  "timers (set_readyState k r s) = timers s"
  "inflight (set_readyState k r s) = inflight s"
  "length (sockets (set_readyState k r s)) = length (sockets s)"
  by (simp_all add: set_readyState_def)

lemma length_clear [simp]: "length (clear h ts) = length ts"
  by (simp add: clear_def)

lemma kind_clear [simp]: "i < length ts \<Longrightarrow> kind (clear h ts ! i) = kind (ts ! i)"
  by (simp add: clear_def nth_list_update)

lemma pending_clear: "i < length ts \<Longrightarrow> pending (clear h ts ! i) = (i \<noteq> h \<and> pending (ts ! i))"
  by (auto simp: clear_def nth_list_update)

lemma stopFallback_frame [simp]:
  "price (stopFallback s) = price s"
  "tickerData (stopFallback s) = tickerData s"
  "isConnected (stopFallback s) = isConnected s"
  "error (stopFallback s) = error s"
  "wsRef (stopFallback s) = wsRef s"
  "reconnectTimeoutRef (stopFallback s) = reconnectTimeoutRef s"
  "fallbackIntervalRef (stopFallback s) = None"
  "reconnectAttemptsRef (stopFallback s) = reconnectAttemptsRef s"
  "fallbackStoppedRef (stopFallback s) = fallbackStoppedRef s"
  "isConnectingRef (stopFallback s) = isConnectingRef s"
  "wsTimeout (stopFallback s) = wsTimeout s"
  "sockets (stopFallback s) = sockets s"
  "inflight (stopFallback s) = inflight s"
  "length (timers (stopFallback s)) = length (timers s)"
  by (simp_all add: stopFallback_def split: option.splits)

lemma timers_stopFallback:
  "timers (stopFallback s) = (case fallbackIntervalRef s of None \<Rightarrow> timers s | Some h \<Rightarrow> clear h (timers s))"
  by (simp add: stopFallback_def split: option.splits)

lemma startFallback_frame [simp]:
  "price (startFallback s) = price s"
  "tickerData (startFallback s) = tickerData s"
  "isConnected (startFallback s) = isConnected s"
  "error (startFallback s) = error s"
  "wsRef (startFallback s) = wsRef s"
  "reconnectTimeoutRef (startFallback s) = reconnectTimeoutRef s"
  "fallbackIntervalRef (startFallback s) = Some (length (timers s))"
  "reconnectAttemptsRef (startFallback s) = reconnectAttemptsRef s"
  "fallbackStoppedRef (startFallback s) = False"
  "isConnectingRef (startFallback s) = isConnectingRef s"
  "wsTimeout (startFallback s) = wsTimeout s"
  "sockets (startFallback s) = sockets s"
  "inflight (startFallback s) = inflight s + 1"
  "timers (startFallback s) = timers s @ [new_timer FallbackInterval 5000]"
  by (simp_all add: startFallback_def fetchPriceData_def Let_def)

lemma timers_fetchPriceData_done [simp]: "timers (fetchPriceData_done p out s) = timers s"
  by (simp add: fetchPriceData_done_def fetch_failed_def Let_def split: fetch_outcome.splits option.splits)

lemma connect_guarded: "isConnectingRef s \<Longrightarrow> connect b s = s"
  by (simp add: connect_def)

lemma show_nat_1: "show_nat (Suc 0) = ''1''"
  by (simp add: show_nat.simps digit_char_def)

subsection \<open>The reconnect attempt counter\<close>

lemma attempts_connect [simp]: "reconnectAttemptsRef (connect b s) = reconnectAttemptsRef s"
  by (simp add: connect_def Let_def split: option.splits)


lemma attempts_onopen [simp]: "reconnectAttemptsRef (onopen k ct b s) = reconnectAttemptsRef s"
  by (simp add: onopen_def Let_def)

lemma attempts_onerror [simp]: "reconnectAttemptsRef (onerror ct s) = reconnectAttemptsRef s"
  by (simp add: onerror_def Let_def)

lemma attempts_cleanup [simp]: "reconnectAttemptsRef (cleanup s) = reconnectAttemptsRef s"
  by (simp add: cleanup_def Let_def split: option.splits)

lemma attempts_fetchPriceData_done [simp]:
  "reconnectAttemptsRef (fetchPriceData_done p out s) = reconnectAttemptsRef s"
  by (simp add: fetchPriceData_done_def fetch_failed_def Let_def split: fetch_outcome.splits option.splits)

lemma attempts_connectionTimeout_fired [simp]:
  "reconnectAttemptsRef (connectionTimeout_fired k s) = reconnectAttemptsRef s"
  by (simp add: connectionTimeout_fired_def)








subsection \<open>The reconnection policy\<close>

text \<open>
  Claim C7. When a close event with a code other than 1000 brings the counter to 1, the
  handler schedules exactly one timer, the reconnect retry, and records its handle: the
  timers afterwards are the timers before (the watchdog of the closing socket cleared) plus
  that one. Its delay is \<open>min (10000 * 2 ^ attemptCount + jitter) 30000\<close> with
  \<open>jitter = Math.random() * 2000\<close>, which lies in \<open>[0, 2000)\<close> since \<open>Math.random()\<close> lies in
  \<open>[0, 1)\<close>. The error shown is the reason for the code followed by
  \<open>. Reconnecting... (1/2)\<close>.
\<close>

theorem first_retry_delay:
  assumes "k < length (sockets s)" and "readyState (sockets s ! k) \<noteq> CLOSED"
    and "code \<noteq> 1000" and "reconnectAttemptsRef s + 1 = 1"
    and "0 \<le> random" and "random < 1"
  shows "\<exists>jitter. 0 \<le> jitter \<and> jitter < 2000 \<and>
           (let s' = step productId s (WsClose k code random);
                attemptCount = reconnectAttemptsRef s'
            in attemptCount = 1
               \<and> timers s' = clear (connectionTimeout (sockets s ! k)) (timers s)
                               @ [new_timer ReconnectRetry (min (10000 * 2 ^ attemptCount + jitter) 30000)]
               \<and> reconnectTimeoutRef s' = Some (length (timers s))
               \<and> error s' = Some (getErrorMessage code @ ''. Reconnecting... (1/2)''))"
proof -
  let ?jitter = "random * 2000"
  have j: "0 \<le> ?jitter \<and> ?jitter < 2000" using assms(5,6) by simp
  have "let s' = step productId s (WsClose k code random);
            attemptCount = reconnectAttemptsRef s'
        in attemptCount = 1
           \<and> timers s' = clear (connectionTimeout (sockets s ! k)) (timers s)
                           @ [new_timer ReconnectRetry (min (10000 * 2 ^ attemptCount + ?jitter) 30000)]
           \<and> reconnectTimeoutRef s' = Some (length (timers s))
           \<and> error s' = Some (getErrorMessage code @ ''. Reconnecting... (1/2)'')"
    using assms(1-4)
    by (simp add: step_def onclose_def Let_def set_readyState_def show_nat_1)
  with j show ?thesis by blast
qed

lemma run_settled:
  "run ''BTC-USD'' init [Mount, TimerFires 1 False] =
     \<lparr> price = None, tickerData = None, isConnected = False, error = None,
       wsRef = Some 0, reconnectTimeoutRef = None, fallbackIntervalRef = None,
       reconnectAttemptsRef = 0, fallbackStoppedRef = False, isConnectingRef = True,
       wsTimeout = Some 1,
       sockets = [\<lparr> readyState = CONNECTING, connectionTimeout = 2, sent = 0 \<rparr>],
       timers = [\<lparr> kind = FallbackInterval, delay = 5000, pending = False \<rparr>,
                 \<lparr> kind = SettleDelay, delay = 1000, pending = False \<rparr>,
                 \<lparr> kind = ConnectionTimeout 0, delay = 15000, pending = True \<rparr>],
       inflight = 1 \<rparr>"
  by (simp add: run_defs)

theorem first_retry_delay_witness:
  "(\<exists>jitter. 0 \<le> jitter \<and> jitter < 2000 \<and>
      (let s' = step ''BTC-USD'' (run ''BTC-USD'' init [Mount, TimerFires 1 False]) (WsClose 0 1006 (1/2));
           attemptCount = reconnectAttemptsRef s'
       in attemptCount = 1
          \<and> timers s' =
              clear (connectionTimeout (sockets (run ''BTC-USD'' init [Mount, TimerFires 1 False]) ! 0))
                (timers (run ''BTC-USD'' init [Mount, TimerFires 1 False]))
              @ [new_timer ReconnectRetry (min (10000 * 2 ^ attemptCount + jitter) 30000)]
          \<and> reconnectTimeoutRef s' = Some (length (timers (run ''BTC-USD'' init [Mount, TimerFires 1 False])))
          \<and> error s' = Some (getErrorMessage 1006 @ ''. Reconnecting... (1/2)'')))
   \<and> length (timers (run ''BTC-USD'' init [Mount, TimerFires 1 False])) = 3
   \<and> connectionTimeout (sockets (run ''BTC-USD'' init [Mount, TimerFires 1 False]) ! 0) = 2
   \<and> getErrorMessage 1006 @ ''. Reconnecting... (1/2)'' = ''Abnormal closure. Reconnecting... (1/2)''"
proof -
  let ?s = "run ''BTC-USD'' init [Mount, TimerFires 1 False]"
  have h1: "0 < length (sockets ?s)" and h2: "readyState (sockets ?s ! 0) \<noteq> CLOSED"
    and h4: "reconnectAttemptsRef ?s + 1 = 1"
    and e1: "length (timers ?s) = 3" and e2: "connectionTimeout (sockets ?s ! 0) = 2"
    unfolding run_settled by simp_all
  have h3: "(1006::nat) \<noteq> 1000" and h5: "(0::real) \<le> 1/2" and h6: "(1/2::real) < 1" by simp_all
  have e3: "getErrorMessage 1006 @ ''. Reconnecting... (1/2)'' = ''Abnormal closure. Reconnecting... (1/2)''"
    by (simp add: getErrorMessage_def)
  from first_retry_delay [OF h1 h2 h3 h4 h5 h6, of "''BTC-USD''"] e1 e2 e3
  show ?thesis by blast
qed

subsection \<open>The watchdog\<close>

lemma connect_arms_watchdog:
  "\<not> isConnectingRef s \<Longrightarrow>
     (let s' = connect False s
      in length (sockets s') = length (sockets s) + 1
         \<and> readyState (sockets s' ! length (sockets s)) = CONNECTING
         \<and> connectionTimeout (sockets s' ! length (sockets s)) = length (timers s)
         \<and> length (timers s') = length (timers s) + 1
         \<and> timers s' ! length (timers s) = new_timer (ConnectionTimeout (length (sockets s))) 15000)"
  by (simp add: connect_def Let_def nth_append split: option.splits)

lemma watchdog_fired:
  assumes "h < length (timers s)" and "pending (timers s ! h)"
    and "kind (timers s ! h) = ConnectionTimeout k"
    and "k < length (sockets s)" and "readyState (sockets s ! k) = CONNECTING"
  shows "let s' = step productId s (TimerFires h ctor_throws)
         in readyState (sockets s' ! k) = CLOSING
            \<and> error s' = Some ''Connection timeout - retrying...''
            \<and> timers s' = clear h (timers s) @ [new_timer TimeoutRetry 3000]
            \<and> reconnectAttemptsRef s' = reconnectAttemptsRef s"
  using assms
  by (simp add: step_def fire_def connectionTimeout_fired_def Let_def ws_close_def close_socket_def)

text \<open>
  Claim C8. A connect attempt that passes the in-flight guard creates a socket in state
  \<open>CONNECTING\<close> and arms its watchdog with a delay of 15000 ms. When that watchdog fires
  while its socket is still \<open>CONNECTING\<close>, \<open>close()\<close> is called on the socket (it is
  \<open>CLOSING\<close> afterwards), the error \<open>Connection timeout - retrying...\<close> is shown, exactly
  one timer is scheduled, a retry of \<open>connect\<close> after 3000 ms, and \<open>reconnectAttemptsRef\<close>
  is unchanged.
\<close>

theorem watchdog_timeout:
  "(\<not> isConnectingRef s0 \<longrightarrow>
      (let s1 = connect False s0
       in length (sockets s1) = length (sockets s0) + 1
          \<and> readyState (sockets s1 ! length (sockets s0)) = CONNECTING
          \<and> connectionTimeout (sockets s1 ! length (sockets s0)) = length (timers s0)
          \<and> length (timers s1) = length (timers s0) + 1
          \<and> timers s1 ! length (timers s0) = new_timer (ConnectionTimeout (length (sockets s0))) 15000))
   \<and> (h < length (timers s) \<and> pending (timers s ! h) \<and> kind (timers s ! h) = ConnectionTimeout k
        \<and> k < length (sockets s) \<and> readyState (sockets s ! k) = CONNECTING \<longrightarrow>
      (let s' = step productId s (TimerFires h ctor_throws)
       in readyState (sockets s' ! k) = CLOSING
          \<and> error s' = Some ''Connection timeout - retrying...''
          \<and> timers s' = clear h (timers s) @ [new_timer TimeoutRetry 3000]
          \<and> reconnectAttemptsRef s' = reconnectAttemptsRef s))"
  using connect_arms_watchdog [of s0] watchdog_fired [of h s k productId ctor_throws]
  by blast

theorem watchdog_timeout_witness:
  "(let s1 = connect False (run ''BTC-USD'' init [Mount])
    in length (sockets s1) = length (sockets (run ''BTC-USD'' init [Mount])) + 1
       \<and> readyState (sockets s1 ! length (sockets (run ''BTC-USD'' init [Mount]))) = CONNECTING
       \<and> connectionTimeout (sockets s1 ! length (sockets (run ''BTC-USD'' init [Mount])))
           = length (timers (run ''BTC-USD'' init [Mount]))
       \<and> length (timers s1) = length (timers (run ''BTC-USD'' init [Mount])) + 1
       \<and> timers s1 ! length (timers (run ''BTC-USD'' init [Mount]))
           = new_timer (ConnectionTimeout (length (sockets (run ''BTC-USD'' init [Mount])))) 15000)
   \<and> (let s' = step ''BTC-USD'' (run ''BTC-USD'' init [Mount, TimerFires 1 False]) (TimerFires 2 False)
      in readyState (sockets s' ! 0) = CLOSING
         \<and> error s' = Some ''Connection timeout - retrying...''
         \<and> timers s' = clear 2 (timers (run ''BTC-USD'' init [Mount, TimerFires 1 False]))
                         @ [new_timer TimeoutRetry 3000]
         \<and> reconnectAttemptsRef s' = reconnectAttemptsRef (run ''BTC-USD'' init [Mount, TimerFires 1 False]))
   \<and> timers (run ''BTC-USD'' init [Mount, TimerFires 1 False]) ! 2 = new_timer (ConnectionTimeout 0) 15000
   \<and> reconnectAttemptsRef (run ''BTC-USD'' init [Mount, TimerFires 1 False]) = 0"
proof -
  let ?before = "run ''BTC-USD'' init [Mount]"
  let ?s = "run ''BTC-USD'' init [Mount, TimerFires 1 False]"
  have g: "\<not> isConnectingRef ?before" by (simp add: run_defs)
  have h: "2 < length (timers ?s) \<and> pending (timers ?s ! 2) \<and> kind (timers ?s ! 2) = ConnectionTimeout 0
      \<and> 0 < length (sockets ?s) \<and> readyState (sockets ?s ! 0) = CONNECTING"
    and e: "timers ?s ! 2 = new_timer (ConnectionTimeout 0) 15000" "reconnectAttemptsRef ?s = 0"
    unfolding run_settled by (simp_all add: new_timer_def)
  from watchdog_timeout [where ?s0.0 = ?before and h = 2 and s = ?s and k = 0 and productId = "''BTC-USD''"
      and ctor_throws = False] g h e
  show ?thesis by blast
qed

subsection \<open>The polling fetcher\<close>

text \<open>
  Claim C9, as stated, fails: the guard of \<open>fetchPriceData\<close> is
  \<open>currentPrice && !isNaN(currentPrice)\<close>, not a test for a finite number. A response whose
  price parses to \<open>0\<close>, a finite number, emits no quote, and one whose price parses to
  \<open>Infinity\<close> emits one.
\<close>

theorem zero_price_rejected:
  "isFinite (Fin 0)
   \<and> price (fetchPriceData_done ''BTC-USD''
              (FetchResolved 200 (Some (price_body ''0'' (Fin 0))) 404 None 17) init) = None
   \<and> tickerData (fetchPriceData_done ''BTC-USD''
              (FetchResolved 200 (Some (price_body ''0'' (Fin 0))) 404 None 17) init) = None
   \<and> error (fetchPriceData_done ''BTC-USD''
              (FetchResolved 200 (Some (price_body ''0'' (Fin 0))) 404 None 17) init)
       = Some ''Unable to fetch price data''
   \<and> \<not> isFinite PosInf
   \<and> price (fetchPriceData_done ''BTC-USD''
              (FetchResolved 200 (Some (price_body ''Infinity'' PosInf)) 404 None 17) init) = Some PosInf"
  by (simp add: run_defs)

text \<open>
  Claim C9, amended. Take a polling fetch in which both requests resolve, the primary
  response succeeds (its status is in 200..299 and its body can be read) and the stats
  response, if its status is in 200..299 too, has a body that can be read. Then a quote is
  emitted if and only if the price parses to a number that is neither \<open>NaN\<close> nor zero: in
  that case price and quote are replaced and the error is cleared. Otherwise price and quote
  stay as they were, the error \<open>Unable to fetch price data\<close> is shown, and no timer changes,
  so the polling interval stays pending.
\<close>

theorem polling_price_guard:
  assumes "tstatus \<noteq> 429" and "response_ok tstatus" and "response_ok sstatus \<longrightarrow> sbody \<noteq> None"
  shows "let p = tj_parseFloat_price t;
             s' = fetchPriceData_done productId (FetchResolved tstatus (Some t) sstatus sbody now) s
         in (p \<noteq> NaN \<and> p \<noteq> Fin 0 \<longrightarrow>
               price s' = Some p
               \<and> tickerData s' = Some (realTickerData productId t
                                        (if response_ok sstatus then sbody else None) now)
               \<and> error s' = None)
            \<and> (p = NaN \<or> p = Fin 0 \<longrightarrow>
                 price s' = price s \<and> tickerData s' = tickerData s
                 \<and> error s' = Some ''Unable to fetch price data''
                 \<and> timers s' = timers s \<and> fallbackIntervalRef s' = fallbackIntervalRef s)"
  using assms
  by (auto simp: fetchPriceData_done_def fetch_failed_def Let_def truthy_num_def isNaN_def)

theorem polling_price_guard_witness:
  "(let p = tj_parseFloat_price (price_body ''50000.00'' (Fin 50000));
        s' = fetchPriceData_done ''BTC-USD''
               (FetchResolved 200 (Some (price_body ''50000.00'' (Fin 50000))) 404 None 17) init
    in p \<noteq> NaN \<and> p \<noteq> Fin 0 \<and> price s' = Some p \<and> error s' = None)
   \<and> (let p = tj_parseFloat_price (price_body ''0'' (Fin 0));
           s' = fetchPriceData_done ''BTC-USD''
                  (FetchResolved 200 (Some (price_body ''0'' (Fin 0))) 404 None 17)
                  (run ''BTC-USD'' init [Mount])
       in p = Fin 0 \<and> price s' = None \<and> error s' = Some ''Unable to fetch price data''
          \<and> timers s' = timers (run ''BTC-USD'' init [Mount]))"
  using polling_price_guard [where tstatus = 200 and sstatus = 404 and sbody = None
      and t = "price_body ''50000.00'' (Fin 50000)" and productId = "''BTC-USD''" and now = 17 and s = init]
    polling_price_guard [where tstatus = 200 and sstatus = 404 and sbody = None
      and t = "price_body ''0'' (Fin 0)" and productId = "''BTC-USD''" and now = 17
      and s = "run ''BTC-USD'' init [Mount]"]
  by (simp add: run_defs)

text \<open>
  Claim C10, as stated, fails in its last clause: \<open>isConnected\<close> being true does not mean
  that the most recent source delivered data. The open event of the socket sets it before
  any response or frame has arrived (price and quote are still empty). And once a fetch has
  set it, it stays true when the next fetch fails: below, after two failed sockets polling
  has restarted, its first fetch succeeds and the fetch of the next tick is rejected.
\<close>

theorem connected_without_data:
  "isConnected (run ''BTC-USD'' init [Mount, TimerFires 1 False, WsOpen 0 False])
   \<and> price (run ''BTC-USD'' init [Mount, TimerFires 1 False, WsOpen 0 False]) = None
   \<and> tickerData (run ''BTC-USD'' init [Mount, TimerFires 1 False, WsOpen 0 False]) = None
   \<and> \<not> isConnected (run ''BTC-USD'' init
        [Mount, FetchDone FetchRejected, TimerFires 1 False, WsClose 0 1006 (1/2),
         TimerFires 3 False, WsClose 1 1006 (1/2)])
   \<and> isConnected (run ''BTC-USD'' init
        [Mount, FetchDone FetchRejected, TimerFires 1 False, WsClose 0 1006 (1/2),
         TimerFires 3 False, WsClose 1 1006 (1/2),
         FetchDone (FetchResolved 200 (Some (price_body ''50000.00'' (Fin 50000))) 404 None 17),
         TimerFires 5 False, FetchDone FetchRejected])
   \<and> error (run ''BTC-USD'' init
        [Mount, FetchDone FetchRejected, TimerFires 1 False, WsClose 0 1006 (1/2),
         TimerFires 3 False, WsClose 1 1006 (1/2),
         FetchDone (FetchResolved 200 (Some (price_body ''50000.00'' (Fin 50000))) 404 None 17),
         TimerFires 5 False, FetchDone FetchRejected]) = Some ''Unable to fetch price data''
   \<and> timers (run ''BTC-USD'' init
        [Mount, FetchDone FetchRejected, TimerFires 1 False, WsClose 0 1006 (1/2),
         TimerFires 3 False, WsClose 1 1006 (1/2)]) ! 5 = new_timer FallbackInterval 5000"
  by (simp add: run_defs)

text \<open>
  Claim C10, amended. Every polling fetch that passes the price guard sets \<open>isConnected\<close>
  to true and clears the error; and some execution reaches a state where \<open>isConnected\<close> is
  true while no socket is open (here: none has been created yet). So \<open>isConnected\<close> being
  true does not imply that the streaming socket is connected.
\<close>

theorem polling_success_connected:
  "(tstatus \<noteq> 429 \<and> response_ok tstatus \<and> (response_ok sstatus \<longrightarrow> sbody \<noteq> None)
      \<and> truthy_num (tj_parseFloat_price t) \<and> \<not> isNaN (tj_parseFloat_price t) \<longrightarrow>
      isConnected (fetchPriceData_done productId (FetchResolved tstatus (Some t) sstatus sbody now) s)
      \<and> error (fetchPriceData_done productId (FetchResolved tstatus (Some t) sstatus sbody now) s) = None)
   \<and> (\<exists>p evs. isConnected (run p init evs)
               \<and> list_all (\<lambda>w. readyState w \<noteq> OPEN) (sockets (run p init evs)))"
proof -
  let ?evs = "[Mount, FetchDone (FetchResolved 200 (Some (price_body ''50000.00'' (Fin 50000))) 404 None 17)]"
  have "isConnected (run ''BTC-USD'' init ?evs)
        \<and> list_all (\<lambda>w. readyState w \<noteq> OPEN) (sockets (run ''BTC-USD'' init ?evs))"
    by (simp add: run_defs)
  then have "\<exists>p evs. isConnected (run p init evs)
                     \<and> list_all (\<lambda>w. readyState w \<noteq> OPEN) (sockets (run p init evs))"
    by blast
  then show ?thesis
    by (auto simp: fetchPriceData_done_def fetch_failed_def Let_def)
qed

theorem polling_success_connected_witness:
  "isConnected (fetchPriceData_done ''BTC-USD''
      (FetchResolved 200 (Some (price_body ''50000.00'' (Fin 50000))) 404 None 17) init)
   \<and> error (fetchPriceData_done ''BTC-USD''
      (FetchResolved 200 (Some (price_body ''50000.00'' (Fin 50000))) 404 None 17) init) = None
   \<and> \<not> isConnected init"
  using polling_success_connected [where tstatus = 200 and sstatus = 404 and sbody = None
      and t = "price_body ''50000.00'' (Fin 50000)" and productId = "''BTC-USD''" and now = 17 and s = init]
  by (simp add: response_ok_def price_body_def truthy_num_def isNaN_def init_def)

subsection \<open>Inbound frames\<close>

lemma other_frames_ignored:
  "\<not> matching_ticker productId d \<Longrightarrow>
     price (onmessage productId d s) = price s
     \<and> tickerData (onmessage productId d s) = tickerData s
     \<and> reconnectAttemptsRef (onmessage productId d s) = reconnectAttemptsRef s
     \<and> isConnected (onmessage productId d s) = isConnected s
     \<and> timers (onmessage productId d s) = timers s"
  by (auto simp: onmessage_def matching_ticker_def split: ws_data.splits)

lemma ticker_frame_accepted:
  "matching_ticker productId (Json data) \<Longrightarrow>
     price (onmessage productId (Json data) s) = Some (wj_parseFloat_price data)
     \<and> tickerData (onmessage productId (Json data) s) = Some (wj_body data)
     \<and> reconnectAttemptsRef (onmessage productId (Json data) s) = 0
     \<and> isConnected (onmessage productId (Json data) s) = isConnected s"
  by (simp add: onmessage_def matching_ticker_def Let_def)

text \<open>
  Claim C2 fails on the code for one of the four kinds of frame it names. A ticker frame
  for the subscribed product whose price does not parse (here: it has no price field, so
  \<open>parseFloat\<close> gives \<open>NaN\<close>) is taken by the first branch of \<open>onmessage\<close>, which stores
  the parse result without looking at it: the visible price, 50000 from the polling fetch
  before, becomes \<open>NaN\<close> and the quote is replaced by the frame.
\<close>

theorem bad_price_frame_overwrites:
  "price (run ''BTC-USD'' init
            [Mount, FetchDone (FetchResolved 200 (Some (price_body ''50000.00'' (Fin 50000))) 404 None 17),
             TimerFires 1 False, WsOpen 0 False]) = Some (Fin 50000)
   \<and> price (run ''BTC-USD'' init
            [Mount, FetchDone (FetchResolved 200 (Some (price_body ''50000.00'' (Fin 50000))) 404 None 17),
             TimerFires 1 False, WsOpen 0 False,
             WsMessage 0 (ticker_frame ''BTC-USD'' None NaN)]) = Some NaN
   \<and> tickerData (run ''BTC-USD'' init
            [Mount, FetchDone (FetchResolved 200 (Some (price_body ''50000.00'' (Fin 50000))) 404 None 17),
             TimerFires 1 False, WsOpen 0 False,
             WsMessage 0 (ticker_frame ''BTC-USD'' None NaN)])
       = Some (no_fields\<lparr> td_product_id := Some ''BTC-USD'' \<rparr>)"
  by (simp add: run_defs no_fields_def)

subsection \<open>Close events of a superseded socket\<close>

text \<open>
  Claim C5, as stated, fails: \<open>onclose\<close> never compares its socket with \<open>wsRef\<close>. After a
  manual reconnect has replaced socket 0 by socket 1, the close event of socket 0 (code 1005,
  as \<open>close()\<close> was called without a code) sets \<open>isConnected\<close> to false, raises the counter
  to 1 and schedules a reconnect retry, while \<open>wsRef\<close> names socket 1.
\<close>

theorem stale_close_recovers:
  "wsRef (run ''BTC-USD'' init [Mount, TimerFires 1 False, WsOpen 0 False, Reconnect False]) = Some 1
   \<and> isConnected (run ''BTC-USD'' init [Mount, TimerFires 1 False, WsOpen 0 False, Reconnect False])
   \<and> reconnectAttemptsRef
       (run ''BTC-USD'' init [Mount, TimerFires 1 False, WsOpen 0 False, Reconnect False]) = 0
   \<and> length (timers
       (run ''BTC-USD'' init [Mount, TimerFires 1 False, WsOpen 0 False, Reconnect False])) = 4
   \<and> \<not> isConnected
       (run ''BTC-USD'' init
          [Mount, TimerFires 1 False, WsOpen 0 False, Reconnect False, WsClose 0 1005 (1/2)])
   \<and> reconnectAttemptsRef
       (run ''BTC-USD'' init
          [Mount, TimerFires 1 False, WsOpen 0 False, Reconnect False, WsClose 0 1005 (1/2)]) = 1
   \<and> timers
       (run ''BTC-USD'' init
          [Mount, TimerFires 1 False, WsOpen 0 False, Reconnect False, WsClose 0 1005 (1/2)]) ! 4
       = new_timer ReconnectRetry 21000
   \<and> wsRef
       (run ''BTC-USD'' init
          [Mount, TimerFires 1 False, WsOpen 0 False, Reconnect False, WsClose 0 1005 (1/2)]) = Some 1"
  by (simp add: run_defs)

text \<open>
  Claim C5, amended. Recovery in the close handler is guarded by the close code alone. A
  close event with code 1000 performs no recovery action, whichever socket delivers it: the
  counter, the retry handle, the polling handle, the requests in flight and the error are
  unchanged and no timer is scheduled (only the watchdog of the closing socket is cleared).
  Every close event sets \<open>isConnected\<close> to false and clears the in-flight flag. The handler
  does not depend on which socket is tracked: changing \<open>wsRef\<close> before the event changes
  nothing but \<open>wsRef\<close> after it.
\<close>

theorem close_guarded_by_code_only:
  "reconnectAttemptsRef (onclose ct 1000 random s) = reconnectAttemptsRef s
   \<and> timers (onclose ct 1000 random s) = clear ct (timers s)
   \<and> reconnectTimeoutRef (onclose ct 1000 random s) = reconnectTimeoutRef s
   \<and> fallbackIntervalRef (onclose ct 1000 random s) = fallbackIntervalRef s
   \<and> inflight (onclose ct 1000 random s) = inflight s
   \<and> error (onclose ct 1000 random s) = error s
   \<and> \<not> isConnected (onclose ct code random s)
   \<and> \<not> isConnectingRef (onclose ct code random s)
   \<and> onclose ct code random (s\<lparr> wsRef := w \<rparr>) = (onclose ct code random s)\<lparr> wsRef := w \<rparr>
   \<and> step productId (s\<lparr> wsRef := w \<rparr>) (WsClose k code random)
       = (step productId s (WsClose k code random))\<lparr> wsRef := w \<rparr>"
  by (simp add: step_def set_readyState_def onclose_def Let_def startFallback_def setTimeout_def
        clearTimeout_def fetchPriceData_def)

subsection \<open>Timers that outlive their purpose\<close>

lemma give_up_branch:
  "code \<noteq> 1000 \<Longrightarrow> 1 \<le> reconnectAttemptsRef s \<Longrightarrow>
     error (onclose ct code random s) = Some (getErrorMessage code @ '' - using REST API fallback'')
     \<and> timers (onclose ct code random s) = clear ct (timers s) @ [new_timer FallbackInterval 5000]
     \<and> reconnectTimeoutRef (onclose ct code random s) = reconnectTimeoutRef s
     \<and> polling_active (onclose ct code random s)"
  by (simp add: onclose_def Let_def polling_active_def polling_def new_timer_def)

text \<open>
  Claim C4 fails on the code in the following execution. The watchdog of socket 0 fires and
  schedules its 3 s retry (timer 3); the close event of socket 0 (code 1006) raises the
  counter to 1 and schedules the reconnect retry (timer 4); the 3 s retry connects socket 1,
  whose close event (code 1006) raises the counter to 2: the fallback error is shown and
  polling restarts. Timer 4 is still pending. When it fires, with no manual reconnect in
  between, \<open>connect\<close> runs: it stops polling and creates socket 2.
\<close>

theorem connect_after_giving_up:
  "reconnectAttemptsRef (run ''BTC-USD'' init
      [Mount, TimerFires 1 False, TimerFires 2 False, WsClose 0 1006 (1/2), TimerFires 3 False,
       WsClose 1 1006 (1/2)]) = 2
   \<and> error (run ''BTC-USD'' init
      [Mount, TimerFires 1 False, TimerFires 2 False, WsClose 0 1006 (1/2), TimerFires 3 False,
       WsClose 1 1006 (1/2)]) = Some ''Abnormal closure - using REST API fallback''
   \<and> polling_active (run ''BTC-USD'' init
      [Mount, TimerFires 1 False, TimerFires 2 False, WsClose 0 1006 (1/2), TimerFires 3 False,
       WsClose 1 1006 (1/2)])
   \<and> timers (run ''BTC-USD'' init
      [Mount, TimerFires 1 False, TimerFires 2 False, WsClose 0 1006 (1/2), TimerFires 3 False,
       WsClose 1 1006 (1/2)]) ! 4 = new_timer ReconnectRetry 21000
   \<and> length (sockets (run ''BTC-USD'' init
      [Mount, TimerFires 1 False, TimerFires 2 False, WsClose 0 1006 (1/2), TimerFires 3 False,
       WsClose 1 1006 (1/2)])) = 2
   \<and> sockets (run ''BTC-USD'' init
      [Mount, TimerFires 1 False, TimerFires 2 False, WsClose 0 1006 (1/2), TimerFires 3 False,
       WsClose 1 1006 (1/2), TimerFires 4 False])
      = [\<lparr> readyState = CLOSED, connectionTimeout = 2, sent = 0 \<rparr>,
         \<lparr> readyState = CLOSED, connectionTimeout = 5, sent = 0 \<rparr>,
         \<lparr> readyState = CONNECTING, connectionTimeout = 7, sent = 0 \<rparr>]
   \<and> \<not> polling_active (run ''BTC-USD'' init
      [Mount, TimerFires 1 False, TimerFires 2 False, WsClose 0 1006 (1/2), TimerFires 3 False,
       WsClose 1 1006 (1/2), TimerFires 4 False])"
  by (simp add: run_defs)

text \<open>
  Claim C6 fails on the code in the following execution. The watchdog of socket 0 fires
  and schedules its 3 s retry (timer 3), whose handle is not kept; the socket closes; the
  hook is torn down, which clears the settle timer and the reconnect retry (timer 4) but
  cannot clear timer 3. When timer 3 fires after the teardown, \<open>connect\<close> runs and creates
  socket 1 with a new watchdog.
\<close>

theorem retry_fires_after_teardown:
  "timers (run ''BTC-USD'' init
      [Mount, TimerFires 1 False, TimerFires 2 False, WsClose 0 1006 (1/2), Unmount])
     = [\<lparr> kind = FallbackInterval, delay = 5000, pending = False \<rparr>,
        \<lparr> kind = SettleDelay, delay = 1000, pending = False \<rparr>,
        \<lparr> kind = ConnectionTimeout 0, delay = 15000, pending = False \<rparr>,
        \<lparr> kind = TimeoutRetry, delay = 3000, pending = True \<rparr>,
        \<lparr> kind = ReconnectRetry, delay = 21000, pending = False \<rparr>]
   \<and> wsRef (run ''BTC-USD'' init
      [Mount, TimerFires 1 False, TimerFires 2 False, WsClose 0 1006 (1/2), Unmount]) = Some 0
   \<and> sockets (run ''BTC-USD'' init
      [Mount, TimerFires 1 False, TimerFires 2 False, WsClose 0 1006 (1/2), Unmount])
     = [\<lparr> readyState = CLOSED, connectionTimeout = 2, sent = 0 \<rparr>]
   \<and> sockets (run ''BTC-USD'' init
      [Mount, TimerFires 1 False, TimerFires 2 False, WsClose 0 1006 (1/2), Unmount, TimerFires 3 False])
     = [\<lparr> readyState = CLOSED, connectionTimeout = 2, sent = 0 \<rparr>,
        \<lparr> readyState = CONNECTING, connectionTimeout = 5, sent = 0 \<rparr>]
   \<and> wsRef (run ''BTC-USD'' init
      [Mount, TimerFires 1 False, TimerFires 2 False, WsClose 0 1006 (1/2), Unmount, TimerFires 3 False])
     = Some 1
   \<and> timers (run ''BTC-USD'' init
      [Mount, TimerFires 1 False, TimerFires 2 False, WsClose 0 1006 (1/2), Unmount, TimerFires 3 False]) ! 5
     = new_timer (ConnectionTimeout 1) 15000"
  by (simp add: run_defs)

subsection \<open>Handles stay well formed\<close>

lemma handle_ok_append [simp]: "handle_ok ts k r \<Longrightarrow> handle_ok (ts @ us) k r"
  by (auto simp: handle_ok_def nth_append split: option.splits)

lemma handle_ok_clear [simp]: "handle_ok (clear h ts) k r = handle_ok ts k r"
  by (auto simp: handle_ok_def split: option.splits)

lemma handle_ok_None [simp]: "handle_ok ts k None"
  by (simp add: handle_ok_def)

lemma handle_ok_new [simp]:
  "length ts' = length ts \<Longrightarrow> handle_ok (ts' @ new_timer k d # us) k (Some (length ts))"
  by (simp add: handle_ok_def new_timer_def nth_append)

lemma handle_ok_new2 [simp]: "handle_ok (ts @ [t, new_timer k d]) k (Some (Suc (length ts)))"
  by (simp add: handle_ok_def new_timer_def nth_append)

lemma watchdogs_ok_append [simp]: "watchdogs_ok ts ws \<Longrightarrow> watchdogs_ok (ts @ us) ws"
  by (auto simp: watchdogs_ok_def list_all_iff nth_append)

lemma watchdogs_ok_clear [simp]: "watchdogs_ok (clear h ts) ws = watchdogs_ok ts ws"
  by (auto simp: watchdogs_ok_def list_all_iff)

lemma watchdogs_ok_update:
  "watchdogs_ok ts ws \<Longrightarrow> k < length ws \<Longrightarrow> connectionTimeout w = connectionTimeout (ws ! k) \<Longrightarrow>
   watchdogs_ok ts (ws[k := w])"
  by (auto simp: watchdogs_ok_def list_all_iff dest!: set_update_subset_insert [THEN subsetD])

lemma watchdogs_ok_new_socket:
  "watchdogs_ok ts ws \<Longrightarrow>
   watchdogs_ok (ts @ [new_timer (ConnectionTimeout k) d])
     (ws @ [\<lparr> readyState = r, connectionTimeout = length ts, sent = n \<rparr>])"
  by (auto simp: watchdogs_ok_def list_all_iff nth_append new_timer_def)

lemma watchdogs_ok_ws_close: "watchdogs_ok ts (sockets s) \<Longrightarrow> watchdogs_ok ts (sockets (ws_close k s))"
  by (simp add: ws_close_def watchdogs_ok_update close_socket_def)

lemma watchdogs_ok_ws_send: "watchdogs_ok ts (sockets s) \<Longrightarrow> watchdogs_ok ts (sockets (ws_send k s))"
  by (simp add: ws_send_def watchdogs_ok_update)

lemma watchdogs_ok_set_readyState:
  "watchdogs_ok ts (sockets s) \<Longrightarrow> watchdogs_ok ts (sockets (set_readyState k r s))"
  by (cases "k < length (sockets s)")
     (simp_all add: set_readyState_def watchdogs_ok_update list_update_beyond)

lemma wf_attempts [simp]: "wf (s\<lparr> reconnectAttemptsRef := n \<rparr>) = wf s"
  by (simp add: wf_def)

lemma wf_inflight [simp]: "wf (s\<lparr> inflight := n \<rparr>) = wf s"
  by (simp add: wf_def)

lemma wf_clearTimeout: "wf s \<Longrightarrow> wf (clearTimeout h s)"
  by (simp add: wf_def)

lemma wf_set_readyState: "wf s \<Longrightarrow> wf (set_readyState k r s)"
  by (simp add: wf_def watchdogs_ok_set_readyState)

lemma wf_connect: "wf s \<Longrightarrow> wf (connect b s)"
  by (auto simp: wf_def connect_def Let_def timers_stopFallback watchdogs_ok_ws_close
        watchdogs_ok_new_socket split: option.splits)

lemma wf_effect: "wf s \<Longrightarrow> wf (effect s)"
  by (simp add: wf_def effect_def Let_def)

lemma wf_cleanup: "wf s \<Longrightarrow> wf (cleanup s)"
  by (auto simp: wf_def cleanup_def Let_def timers_stopFallback watchdogs_ok_ws_close
        split: option.splits)

lemma wf_reconnect: "wf s \<Longrightarrow> wf (reconnect b s)"
  unfolding reconnect_def Let_def
  by (rule wf_connect) (auto simp: wf_def split: option.splits)

lemma wf_connectionTimeout_fired: "wf s \<Longrightarrow> wf (connectionTimeout_fired k s)"
  by (simp add: wf_def connectionTimeout_fired_def watchdogs_ok_ws_close)

lemma wf_fire: "wf s \<Longrightarrow> wf (fire h b s)"
  by (simp add: fire_def Let_def wf_connect wf_connectionTimeout_fired wf_clearTimeout
        split: timer_kind.splits)
     (simp add: wf_def fetchPriceData_def)

lemma wf_fetchPriceData_done: "wf s \<Longrightarrow> wf (fetchPriceData_done p out s)"
  by (simp add: wf_def fetchPriceData_done_def fetch_failed_def Let_def
        split: fetch_outcome.splits option.splits)

lemma wf_onopen: "wf s \<Longrightarrow> wf (onopen k ct b s)"
  by (simp add: wf_def onopen_def Let_def watchdogs_ok_ws_send)

lemma wf_onmessage: "wf s \<Longrightarrow> wf (onmessage p d s)"
  by (simp add: wf_def onmessage_def Let_def timers_stopFallback split: ws_data.splits option.splits)

lemma wf_onerror: "wf s \<Longrightarrow> wf (onerror ct s)"
  by (simp add: wf_def onerror_def Let_def)

lemma wf_onclose: "wf s \<Longrightarrow> wf (onclose ct code r s)"
  by (simp add: wf_def onclose_def Let_def)

lemma wf_step: "wf s \<Longrightarrow> wf (step productId s e)"
  by (cases e)
     (simp_all add: step_def wf_effect wf_cleanup wf_reconnect wf_fire wf_fetchPriceData_done
        wf_onopen wf_onmessage wf_onerror wf_onclose wf_set_readyState)

lemma wf_init: "wf init"
  by (simp add: wf_def init_def watchdogs_ok_def)

lemma wf_run: "wf s \<Longrightarrow> wf (run productId s evs)"
  by (induction evs arbitrary: s) (simp_all add: wf_step)

lemma watchdog_not_interval:
  "wf s \<Longrightarrow> k < length (sockets s) \<Longrightarrow>
   kind (timers s ! connectionTimeout (sockets s ! k)) \<noteq> FallbackInterval"
  by (simp add: wf_def watchdogs_ok_def list_all_length)

subsection \<open>When polling stops\<close>

lemma polling_append: "polling ts \<Longrightarrow> polling (ts @ us)"
  by (auto simp: polling_def list_ex_iff)

lemma polling_new [simp]: "polling (ts @ new_timer FallbackInterval d # us)"
  by (simp add: polling_def list_ex_iff new_timer_def)

lemma polling_clear:
  assumes "polling ts" and "h < length ts \<longrightarrow> kind (ts ! h) \<noteq> FallbackInterval"
  shows "polling (clear h ts)"
proof -
  from assms(1) obtain i where i: "i < length ts" "kind (ts ! i) = FallbackInterval" "pending (ts ! i)"
    by (auto simp: polling_def list_ex_iff in_set_conv_nth)
  with assms(2) have "i \<noteq> h" by auto
  with i have "kind (clear h ts ! i) = FallbackInterval \<and> pending (clear h ts ! i)"
    by (simp add: pending_clear)
  moreover from i have "clear h ts ! i \<in> set (clear h ts)" by simp
  ultimately show ?thesis unfolding polling_def list_ex_iff by blast
qed

lemma polling_onopen:
  "polling (timers s) \<Longrightarrow> kind (timers s ! ct) \<noteq> FallbackInterval \<Longrightarrow>
   polling (timers (onopen k ct b s))"
  by (simp add: onopen_def Let_def polling_clear)

lemma polling_onerror:
  "polling (timers s) \<Longrightarrow> kind (timers s ! ct) \<noteq> FallbackInterval \<Longrightarrow>
   polling (timers (onerror ct s))"
  by (simp add: onerror_def Let_def polling_clear)

lemma polling_onclose:
  "polling (timers s) \<Longrightarrow> kind (timers s ! ct) \<noteq> FallbackInterval \<Longrightarrow>
   polling (timers (onclose ct code rnd s))"
  by (simp add: onclose_def Let_def polling_clear polling_append)

lemma polling_onmessage:
  "polling (timers s) \<Longrightarrow> \<not> (matching_ticker p d \<and> \<not> fallbackStoppedRef s) \<Longrightarrow>
   polling (timers (onmessage p d s))"
  by (auto simp: onmessage_def matching_ticker_def Let_def split: ws_data.splits)

lemma polling_reconnect:
  "wf s \<Longrightarrow> isConnectingRef s \<Longrightarrow> polling (timers s) \<Longrightarrow> polling (timers (reconnect b s))"
  by (auto simp: reconnect_def Let_def connect_guarded wf_def handle_ok_def
        intro!: polling_clear split: option.splits)

lemma polling_fire:
  assumes "polling (timers s)"
    and "\<not> (invokes_connect s (TimerFires h b) \<and> \<not> isConnectingRef s)"
  shows "polling (timers (fire h b s))"
proof (cases "h < length (timers s) \<and> pending (timers s ! h)")
  case False
  with assms(1) show ?thesis by (auto simp: fire_def)
next
  case True
  show ?thesis
  proof (cases "kind (timers s ! h) = FallbackInterval")
    case True
    with \<open>h < length (timers s) \<and> pending (timers s ! h)\<close> assms(1) show ?thesis
      by (simp add: fire_def fetchPriceData_def)
  next
    case False
    with assms(1) have cleared: "polling (clear h (timers s))"
      by (intro polling_clear) simp_all
    show ?thesis
    proof (cases "kind (timers s ! h)")
      case FallbackInterval
      with False show ?thesis by simp
    next
      case (ConnectionTimeout k)
      with True cleared show ?thesis
        by (simp add: fire_def connectionTimeout_fired_def polling_append)
    next
      case SettleDelay
      with True assms(2) have "isConnectingRef s" by (simp add: invokes_connect_def)
      with True SettleDelay cleared show ?thesis by (simp add: fire_def connect_guarded)
    next
      case ReconnectRetry
      with True assms(2) have "isConnectingRef s" by (simp add: invokes_connect_def)
      with True ReconnectRetry cleared show ?thesis by (simp add: fire_def connect_guarded)
    next
      case TimeoutRetry
      with True assms(2) have "isConnectingRef s" by (simp add: invokes_connect_def)
      with True TimeoutRetry cleared show ?thesis by (simp add: fire_def connect_guarded)
    next
      case ExceptionRetry
      with True assms(2) have "isConnectingRef s" by (simp add: invokes_connect_def)
      with True ExceptionRetry cleared show ?thesis by (simp add: fire_def connect_guarded Let_def)
    qed
  qed
qed

lemma polling_step:
  assumes "wf s" and "polling (timers s)" and "e \<noteq> Unmount"
    and "\<not> (invokes_connect s e \<and> \<not> isConnectingRef s)"
    and "\<not> (delivers_ticker productId e \<and> \<not> fallbackStoppedRef s)"
  shows "polling (timers (step productId s e))"
proof (cases e)
  case Mount
  then show ?thesis by (simp add: step_def effect_def Let_def)
next
  case Unmount
  with assms(3) show ?thesis by simp
next
  case (Reconnect b)
  with assms show ?thesis by (simp add: step_def invokes_connect_def polling_reconnect)
next
  case (TimerFires h b)
  with assms show ?thesis by (simp add: step_def polling_fire)
next
  case (FetchDone out)
  with assms show ?thesis by (simp add: step_def)
next
  case (WsOpen k b)
  with assms show ?thesis by (simp add: step_def polling_onopen watchdog_not_interval)
next
  case (WsMessage k d)
  with assms show ?thesis by (simp add: step_def delivers_ticker_def polling_onmessage)
next
  case (WsError k)
  with assms show ?thesis by (simp add: step_def polling_onerror watchdog_not_interval)
next
  case (WsClose k code rnd)
  with assms show ?thesis by (simp add: step_def polling_onclose watchdog_not_interval)
qed

text \<open>
  Claim C1, as stated, fails: \<open>connect\<close> itself calls \<open>stopFallback\<close> before it creates the
  socket. One second after the start the settle timer fires and polling, active until
  then, is stopped, although no frame has arrived.
\<close>

theorem polling_stopped_by_connect:
  "\<not> list_ex (delivers_ticker ''BTC-USD'') [Mount, TimerFires 1 False]
   \<and> polling_active (run ''BTC-USD'' init [Mount])
   \<and> \<not> polling_active (run ''BTC-USD'' init [Mount, TimerFires 1 False])"
  by (simp add: run_defs delivers_ticker_def)

lemma connect_cancels_tracked:
  "\<not> isConnectingRef c \<Longrightarrow> fallbackIntervalRef c = Some h \<Longrightarrow> h < length (timers c) \<Longrightarrow>
   \<not> pending (timers (connect b c) ! h)"
  by (simp add: connect_def Let_def timers_stopFallback nth_append pending_clear split: option.splits)

text \<open>
  Claim C1, amended. The start activates polling. In every state, a call of \<open>connect\<close> that
  passes the in-flight guard cancels the polling interval whose handle \<open>fallbackIntervalRef\<close>
  holds. In every reachable state where polling is active, it stays active over every event
  except: the teardown; an event that runs \<open>connect\<close> (a manual reconnect, or the settle
  timer, the reconnect retry, the watchdog's retry or the exception retry firing) while no
  connect attempt is in flight; and a frame of type \<open>ticker\<close> for the subscribed product,
  whatever its price, while \<open>fallbackStoppedRef\<close> is false.
\<close>

theorem polling_stopped_only_by:
  "polling_active (step productId s Mount)
   \<and> (\<not> isConnectingRef c \<and> fallbackIntervalRef c = Some h \<and> h < length (timers c) \<longrightarrow>
        \<not> pending (timers (connect ctor_throws c) ! h))
   \<and> (polling_active (run productId init evs)
        \<and> \<not> polling_active (step productId (run productId init evs) e) \<longrightarrow>
      e = Unmount
      \<or> (invokes_connect (run productId init evs) e \<and> \<not> isConnectingRef (run productId init evs))
      \<or> (delivers_ticker productId e \<and> \<not> fallbackStoppedRef (run productId init evs)))"
proof -
  have "wf (run productId init evs)" by (simp add: wf_run wf_init)
  from polling_step [OF this, of e productId] connect_cancels_tracked [of c h ctor_throws]
  show ?thesis
    by (auto simp: polling_active_def step_def effect_def Let_def)
qed

theorem polling_stopped_only_by_witness:
  "polling_active (step ''BTC-USD'' init Mount)
   \<and> \<not> isConnectingRef (run ''BTC-USD'' init [Mount])
   \<and> fallbackIntervalRef (run ''BTC-USD'' init [Mount]) = Some 0
   \<and> pending (timers (run ''BTC-USD'' init [Mount]) ! 0)
   \<and> \<not> pending (timers (connect False (run ''BTC-USD'' init [Mount])) ! 0)
   \<and> polling_active (run ''BTC-USD'' init [Mount])
   \<and> \<not> polling_active (step ''BTC-USD'' (run ''BTC-USD'' init [Mount]) (TimerFires 1 False))
   \<and> (TimerFires 1 False = Unmount
      \<or> (invokes_connect (run ''BTC-USD'' init [Mount]) (TimerFires 1 False)
          \<and> \<not> isConnectingRef (run ''BTC-USD'' init [Mount]))
      \<or> (delivers_ticker ''BTC-USD'' (TimerFires 1 False)
          \<and> \<not> fallbackStoppedRef (run ''BTC-USD'' init [Mount])))"
proof -
  let ?started = "run ''BTC-USD'' init [Mount]"
  have a: "polling_active ?started"
    and b: "\<not> polling_active (step ''BTC-USD'' ?started (TimerFires 1 False))"
    and g: "\<not> isConnectingRef ?started \<and> fallbackIntervalRef ?started = Some 0
            \<and> 0 < length (timers ?started)"
    and p: "pending (timers ?started ! 0)"
    by (simp_all add: run_defs)
  from polling_stopped_only_by [where productId = "''BTC-USD''" and s = init and evs = "[Mount]"
      and e = "TimerFires 1 False" and c = ?started and h = 0 and ctor_throws = False] a b g p
  show ?thesis by blast
qed

end
